theory Spec2Isabelle
  imports Complex_Main "HOL-Library.Sublist"
begin

section \<open>The Python runtime, as far as the validator uses it\<close>

text \<open>
  Strings are \<^typ>\<open>string\<close>; a character is read as the code point of the same number,
  so the strings of the model are the Python strings over the code points 0 to 255.
  White space, digits and upper case follow Python on these code points, with one
  exception: the upper case of the code points 181 and 255 lies beyond 255, and the model
  leaves these two characters as they are (see \<open>py_upper\<close>). Statements about upper case
  are therefore made for ASCII strings. Python's unbounded integers are \<^typ>\<open>int\<close>,
  its floats are idealised as \<^typ>\<open>real\<close>. An exception is a value of \<open>py_error\<close>,
  and a call that may raise returns \<open>py_error + 'a\<close>.
\<close>

datatype py_error = ValueError | IndexError | OverflowError

definition is_digit :: "char \<Rightarrow> bool" where
  "is_digit c = (48 \<le> (of_char c :: nat) \<and> (of_char c :: nat) \<le> 57)"

definition digit_val :: "char \<Rightarrow> int" where
  "digit_val c = int (of_char c) - 48"

text \<open>White space for \<open>str.strip()\<close> (\<open>str.isspace\<close>): tab to carriage return, the four
  separators 28..31, the blank, and the code points 133 (next line) and 160 (no-break
  space).\<close>

definition is_space :: "char \<Rightarrow> bool" where
  "is_space c =
     (let n = (of_char c :: nat)
      in (9 \<le> n \<and> n \<le> 13) \<or> (28 \<le> n \<and> n \<le> 31) \<or> n = 32 \<or> n = 133 \<or> n = 160)"

text \<open>White space that \<open>int()\<close> skips around a number: tab to carriage return, the blank,
  and the code points 133 and 160; not the separators 28..31.\<close>

definition is_int_space :: "char \<Rightarrow> bool" where
  "is_int_space c =
     (let n = (of_char c :: nat) in (9 \<le> n \<and> n \<le> 13) \<or> n = 32 \<or> n = 133 \<or> n = 160)"

definition is_ascii :: "string \<Rightarrow> bool" where
  "is_ascii s = list_all (\<lambda>c. (of_char c :: nat) < 128) s"

definition py_strip :: "string \<Rightarrow> string" where
  "py_strip s = rev (dropWhile is_space (rev (dropWhile is_space s)))"

text \<open>
  \<open>str.upper()\<close>: the letters a to z, and the letters 224 to 254 except the division sign
  247, move down by 32; the sharp s (223) becomes \<open>SS\<close>; every other code point up to 255
  stays, except 181 and 255, whose upper case (924 and 376) is no character of the
  model: they are left unchanged here.
\<close>

definition upper_char :: "char \<Rightarrow> string" where
  "upper_char c =
     (let n = (of_char c :: nat)
      in if (97 \<le> n \<and> n \<le> 122) \<or> (224 \<le> n \<and> n \<le> 254 \<and> n \<noteq> 247) then [char_of (n - 32)]
         else if n = 223 then ''SS''
         else [c])"

definition py_upper :: "string \<Rightarrow> string" where
  "py_upper s = concat (map upper_char s)"

text \<open>\<open>s[i:j]\<close> for \<open>0 \<le> i \<le> j\<close>: a slice never raises, it is cut at the end of
  the string.\<close>

definition py_slice :: "string \<Rightarrow> nat \<Rightarrow> nat \<Rightarrow> string" where
  "py_slice s i j = take (j - i) (drop i s)"

text \<open>\<open>s.split(sep)\<close> for a one-character separator: always at least one part.\<close>

fun py_split :: "char \<Rightarrow> string \<Rightarrow> string list" where
  "py_split sep [] = [[]]"
| "py_split sep (c # cs) =
     (if c = sep then [] # py_split sep cs
      else (case py_split sep cs of
              [] \<Rightarrow> [[c]]
            | p # ps \<Rightarrow> (c # p) # ps))"

text \<open>\<open>a, b, c = parts\<close>: anything but three parts raises ValueError (here \<open>None\<close>).\<close>

fun unpack3 :: "'a list \<Rightarrow> ('a \<times> 'a \<times> 'a) option" where
  "unpack3 [a, b, c] = Some (a, b, c)"
| "unpack3 _ = None"

text \<open>
  The digits of a decimal literal as \<open>int()\<close> reads them: digits, with single underscores
  allowed between two digits. The flag says that the next character must be a digit (at
  the start and after an underscore).
\<close>

fun int_digits :: "bool \<Rightarrow> int \<Rightarrow> string \<Rightarrow> int option" where
  "int_digits need acc [] = (if need then None else Some acc)"
| "int_digits need acc (c # cs) =
     (if is_digit c then int_digits False (acc * 10 + digit_val c) cs
      else if c = CHR ''_'' \<and> \<not> need then int_digits True acc cs
      else None)"

text \<open>
  \<open>int(s)\<close> on a string, base 10: white space around, an optional sign, then the
  digits. It raises ValueError only, which is \<open>None\<close> here.
\<close>

definition py_int :: "string \<Rightarrow> int option" where
  "py_int s =
     (let t = rev (dropWhile is_int_space (rev (dropWhile is_int_space s)))
      in case t of
           [] \<Rightarrow> None
         | c # cs \<Rightarrow>
             if c = CHR ''-'' then map_option uminus (int_digits True 0 cs)
             else if c = CHR ''+'' then int_digits True 0 cs
             else int_digits True 0 (c # cs))"

text \<open>\<open>str(n)\<close> of an integer, as an f-string prints it.\<close>

function pos_digits :: "int \<Rightarrow> string" where
  "pos_digits n =
     (if n < 10 then [char_of (48 + n)]
      else pos_digits (n div 10) @ [char_of (48 + n mod 10)])"
  by pat_completeness auto
termination
  by (relation "measure nat") auto

definition str_int :: "int \<Rightarrow> string" where
  "str_int i = (if i < 0 then CHR ''-'' # pos_digits (- i) else pos_digits i)"

subsection \<open>\<open>datetime\<close>\<close>

record datetime =
  dt_year :: int
  dt_month :: int
  dt_day :: int
  dt_hour :: int
  dt_minute :: int
  dt_second :: int
  dt_microsecond :: int

definition is_leap :: "int \<Rightarrow> bool" where
  "is_leap y = (y mod 4 = 0 \<and> (y mod 100 \<noteq> 0 \<or> y mod 400 = 0))"

definition days_in_month :: "int \<Rightarrow> int \<Rightarrow> int" where
  "days_in_month y m =
     (if m = 2 then (if is_leap y then 29 else 28)
      else if m = 4 \<or> m = 6 \<or> m = 9 \<or> m = 11 then 30
      else 31)"

definition c_int_ok :: "int \<Rightarrow> bool" where
  "c_int_ok n = (- 2147483648 \<le> n \<and> n \<le> 2147483647)"

text \<open>
  \<open>datetime(year, month, day)\<close> of CPython: the three arguments are first converted to C
  ints, and one that does not fit raises OverflowError; then a year outside 1..9999, a
  month outside 1..12 or a day the month does not have raises ValueError. The time of day
  is midnight.
\<close>

definition datetime_new :: "int \<Rightarrow> int \<Rightarrow> int \<Rightarrow> py_error + datetime" where
  "datetime_new y m d =
     (if \<not> (c_int_ok y \<and> c_int_ok m \<and> c_int_ok d) then Inl OverflowError
      else if y < 1 \<or> 9999 < y then Inl ValueError
      else if m < 1 \<or> 12 < m then Inl ValueError
      else if d < 1 \<or> days_in_month y m < d then Inl ValueError
      else Inr \<lparr>dt_year = y, dt_month = m, dt_day = d, dt_hour = 0, dt_minute = 0,
                dt_second = 0, dt_microsecond = 0\<rparr>)"

text \<open>\<open>a > b\<close> on two datetimes: lexicographic on the seven fields.\<close>

definition datetime_gt :: "datetime \<Rightarrow> datetime \<Rightarrow> bool" where
  "datetime_gt a b =
     (dt_year a > dt_year b \<or> (dt_year a = dt_year b \<and>
     (dt_month a > dt_month b \<or> (dt_month a = dt_month b \<and>
     (dt_day a > dt_day b \<or> (dt_day a = dt_day b \<and>
     (dt_hour a > dt_hour b \<or> (dt_hour a = dt_hour b \<and>
     (dt_minute a > dt_minute b \<or> (dt_minute a = dt_minute b \<and>
     (dt_second a > dt_second b \<or> (dt_second a = dt_second b \<and>
      dt_microsecond a > dt_microsecond b))))))))))))"

subsection \<open>The two regular expressions\<close>

text \<open>
  \<open>re.match(r'^\d{16}$', s)\<close>: sixteen digits, and then the end of the string; in Python
  \<open>$\<close> also matches just before a newline that ends the string.
\<close>

definition at_dollar :: "string \<Rightarrow> bool" where
  "at_dollar rest = (rest = [] \<or> rest = [CHR 0x0A])"

definition match_nik :: "string \<Rightarrow> bool" where
  "match_nik s = (16 \<le> length s \<and> list_all is_digit (take 16 s) \<and> at_dollar (drop 16 s))"

text \<open>\<open>re.match(r'^\d{3}/\d{3}$', s)\<close>.\<close>

definition match_rt_rw :: "string \<Rightarrow> bool" where
  "match_rt_rw s =
     (7 \<le> length s \<and> list_all is_digit (take 3 s) \<and> s ! 3 = CHR ''/'' \<and>
      list_all is_digit (take 3 (drop 4 s)) \<and> at_dollar (drop 7 s))"

section \<open>The data model (\<open>app/models/ktp_model.py\<close>)\<close>

datatype JenisKelamin = LAKI_LAKI | PEREMPUAN

fun JenisKelamin_value :: "JenisKelamin \<Rightarrow> string" where
  "JenisKelamin_value LAKI_LAKI = ''LAKI-LAKI''"
| "JenisKelamin_value PEREMPUAN = ''PEREMPUAN''"

datatype StatusPerkawinan = BELUM_KAWIN | KAWIN | CERAI_HIDUP | CERAI_MATI

fun StatusPerkawinan_value :: "StatusPerkawinan \<Rightarrow> string" where
  "StatusPerkawinan_value BELUM_KAWIN = ''BELUM KAWIN''"
| "StatusPerkawinan_value KAWIN = ''KAWIN''"
| "StatusPerkawinan_value CERAI_HIDUP = ''CERAI HIDUP''"
| "StatusPerkawinan_value CERAI_MATI = ''CERAI MATI''"

text \<open>
  \<open>KTPData\<close>. The two required strings may be empty; an optional field is \<open>None\<close> or a
  value. The validator is written for records that have not passed the field validators
  of the class, so the strings here are arbitrary.
\<close>

record KTPData =
  nik :: string
  nama :: string
  tempat_lahir :: "string option"
  tanggal_lahir :: "string option"
  jenis_kelamin :: "JenisKelamin option"
  alamat :: "string option"
  rt_rw :: "string option"
  kelurahan :: "string option"
  kecamatan :: "string option"
  kabupaten_kota :: "string option"
  provinsi :: "string option"
  agama :: "string option"
  status_perkawinan :: "StatusPerkawinan option"
  pekerjaan :: "string option"
  kewarganegaraan :: "string option"
  berlaku_hingga :: "string option"

text \<open>\<open>KTPValidationResult\<close>, without the face detection result, which no code modelled
  here reads.\<close>

record KTPValidationResult =
  is_valid_ktp :: bool
  confidence_score :: real
  extracted_data :: "KTPData option"
  validation_errors :: "string list"
  processing_notes :: "string option"
  database_id :: "int option"

text \<open>Truth value of an optional string in an \<open>if\<close>: neither \<open>None\<close> nor empty.\<close>

definition truthy :: "string option \<Rightarrow> bool" where
  "truthy v = (case v of None \<Rightarrow> False | Some s \<Rightarrow> s \<noteq> [])"




section \<open>\<open>KTPValidator\<close> (\<open>app/services/ktp_validator.py\<close>)\<close>

definition valid_provinces :: "string list" where
  "valid_provinces =
     [''ACEH'', ''SUMATERA UTARA'', ''SUMATERA BARAT'', ''RIAU'', ''JAMBI'',
      ''SUMATERA SELATAN'', ''BENGKULU'', ''LAMPUNG'', ''KEPULAUAN BANGKA BELITUNG'',
      ''KEPULAUAN RIAU'', ''DKI JAKARTA'', ''JAWA BARAT'', ''JAWA TENGAH'',
      ''DI YOGYAKARTA'', ''JAWA TIMUR'', ''BANTEN'', ''BALI'', ''NUSA TENGGARA BARAT'',
      ''NUSA TENGGARA TIMUR'', ''KALIMANTAN BARAT'', ''KALIMANTAN TENGAH'',
      ''KALIMANTAN SELATAN'', ''KALIMANTAN TIMUR'', ''KALIMANTAN UTARA'',
      ''SULAWESI UTARA'', ''SULAWESI TENGAH'', ''SULAWESI SELATAN'',
      ''SULAWESI TENGGARA'', ''GORONTALO'', ''SULAWESI BARAT'', ''MALUKU'',
      ''MALUKU UTARA'', ''PAPUA'', ''PAPUA BARAT'', ''PAPUA SELATAN'',
      ''PAPUA TENGAH'', ''PAPUA PEGUNUNGAN'', ''PAPUA BARAT DAYA'']"

definition valid_religions :: "string list" where
  "valid_religions = [''ISLAM'', ''KRISTEN'', ''KATOLIK'', ''HINDU'', ''BUDDHA'', ''KONGHUCU'']"

definition valid_genders :: "string list" where
  "valid_genders = [''LAKI-LAKI'', ''PEREMPUAN'']"

definition valid_marital_status :: "string list" where
  "valid_marital_status = [''BELUM KAWIN'', ''KAWIN'', ''CERAI HIDUP'', ''CERAI MATI'']"

text \<open>
  The three conversions \<open>int(s[:2])\<close>, \<open>int(s[2:4])\<close>, \<open>int(s[4:6])\<close> that open both
  \<open>_validate_birth_date_in_nik\<close> (lines 169 to 171) and \<open>_cross_validate_nik_data\<close> (lines
  299 to 301): the raw day, the month and the two-digit year, or \<open>None\<close> when one of them
  raises ValueError.
\<close>

definition parse_ddmmyy :: "string \<Rightarrow> (int \<times> int \<times> int) option" where
  "parse_ddmmyy s =
     (case py_int (py_slice s 0 2) of None \<Rightarrow> None | Some day \<Rightarrow>
      case py_int (py_slice s 2 4) of None \<Rightarrow> None | Some month \<Rightarrow>
      case py_int (py_slice s 4 6) of None \<Rightarrow> None | Some year \<Rightarrow>
        Some (day, month, year))"

text \<open>
  The two lines \<open>day, month, year = s.split('-')\<close> and
  \<open>day, month, year = int(day), int(month), int(year)\<close> of \<open>_validate_birth_date\<close> (lines
  218, 219) and of \<open>_cross_validate_nik_data\<close> (lines 317, 318); \<open>None\<close> when they raise
  ValueError.
\<close>

definition parse_dmy :: "string \<Rightarrow> (int \<times> int \<times> int) option" where
  "parse_dmy s =
     (case unpack3 (py_split CHR ''-'' s) of None \<Rightarrow> None | Some (day_s, month_s, year_s) \<Rightarrow>
      case py_int day_s of None \<Rightarrow> None | Some day \<Rightarrow>
      case py_int month_s of None \<Rightarrow> None | Some month \<Rightarrow>
      case py_int year_s of None \<Rightarrow> None | Some year \<Rightarrow>
        Some (day, month, year))"

definition validate_region_code :: "string \<Rightarrow> bool" where
  "validate_region_code region_code =
     (if py_slice region_code 0 2 = ''00'' then False
      else if py_slice region_code 2 4 = ''00'' then False
      else if py_slice region_code 4 6 = ''00'' then False
      else True)"

text \<open>
  \<open>_validate_birth_date_in_nik\<close>. The clock \<open>datetime.now()\<close> is the parameter \<open>now\<close>.
  The handler \<open>except (ValueError, IndexError)\<close> turns these two into \<open>False\<close>; any other
  exception leaves the function.
\<close>

definition validate_birth_date_in_nik :: "datetime \<Rightarrow> string \<Rightarrow> py_error + bool" where
  "validate_birth_date_in_nik now birth_date_str =
     (case parse_ddmmyy birth_date_str of None \<Rightarrow> Inr False | Some (day0, month, year) \<Rightarrow>
        let day = (if day0 > 40 then day0 - 40 else day0) in
        if day < 1 \<or> day > 31 then Inr False
        else if month < 1 \<or> month > 12 then Inr False
        else
          let current_year = dt_year now;
              full_year = (if year \<le> (current_year - 1900) mod 100 then 2000 + year
                           else 1900 + year)
          in case datetime_new full_year month day of
               Inl e \<Rightarrow> (case e of ValueError \<Rightarrow> Inr False | IndexError \<Rightarrow> Inr False
                          | OverflowError \<Rightarrow> Inl OverflowError)
             | Inr test_date \<Rightarrow>
                 if datetime_gt test_date now then Inr False else Inr True)"

text \<open>
  \<open>_validate_birth_date\<close>. The split and the three conversions raise before anything is
  appended; the inner handler catches ValueError of the constructor only, the outer one
  ValueError and IndexError.
\<close>

definition validate_birth_date :: "datetime \<Rightarrow> string \<Rightarrow> py_error + string list" where
  "validate_birth_date now birth_date =
     (let format_error = [''Format tanggal lahir salah. Gunakan DD-MM-YYYY: '' @ birth_date] in
      case parse_dmy birth_date of None \<Rightarrow> Inr format_error | Some (day, month, year) \<Rightarrow>
        let errors = [];
            errors = errors @ (if day < 1 \<or> day > 31
                               then [''Tanggal tidak valid: '' @ str_int day] else []);
            errors = errors @ (if month < 1 \<or> month > 12
                               then [''Bulan tidak valid: '' @ str_int month] else []);
            errors = errors @ (if year < 1900 \<or> year > dt_year now
                               then [''Tahun tidak valid: '' @ str_int year] else [])
        in case datetime_new year month day of
             Inl e \<Rightarrow> (case e of
                         ValueError \<Rightarrow> Inr (errors @ [''Tanggal tidak valid: '' @ birth_date])
                       | IndexError \<Rightarrow> Inr (errors @ format_error)
                       | OverflowError \<Rightarrow> Inl OverflowError)
           | Inr test_date \<Rightarrow>
               Inr (errors @ (if datetime_gt test_date now
                              then [''Tanggal lahir tidak boleh di masa depan''] else [])))"

text \<open>\<open>_validate_province\<close>; \<open>a in b\<close> on two strings is \<^term>\<open>sublist a b\<close>.\<close>

definition validate_province :: "string \<Rightarrow> string list" where
  "validate_province province =
     (let province_upper = py_strip (py_upper province) in
      if province_upper \<notin> set valid_provinces then
        (let matches = filter (\<lambda>p. sublist province_upper p \<or> sublist p province_upper)
                         valid_provinces
         in if matches = [] then [''Provinsi tidak dikenali: '' @ province] else [])
      else [])"

definition validate_rt_rw_format :: "string \<Rightarrow> bool" where
  "validate_rt_rw_format s = match_rt_rw s"

definition validate_nik :: "datetime \<Rightarrow> string \<Rightarrow> py_error + string list" where
  "validate_nik now nik0 =
     (if nik0 = [] then Inr [''NIK tidak boleh kosong'']
      else if \<not> match_nik nik0 then Inr [''NIK harus 16 digit angka'']
      else
        let kode_wilayah = py_slice nik0 0 6;
            errors = (if \<not> validate_region_code kode_wilayah
                      then [''Kode wilayah NIK tidak valid: '' @ kode_wilayah] else []);
            tgl_lahir_nik = py_slice nik0 6 12
        in case validate_birth_date_in_nik now tgl_lahir_nik of
             Inl e \<Rightarrow> Inl e
           | Inr date_ok \<Rightarrow>
               let errors = errors @ (if \<not> date_ok
                                      then [''Tanggal lahir dalam NIK tidak valid: '' @ tgl_lahir_nik]
                                      else []);
                   nomor_urut = py_slice nik0 12 16;
                   errors = errors @ (if nomor_urut = ''0000''
                                      then [''Nomor urut NIK tidak boleh 0000''] else [])
               in Inr errors)"

text \<open>
  \<open>_cross_validate_nik_data\<close>. Everything that can raise in it raises ValueError, before
  the first append (the three conversions of the identity number) or inside the inner
  \<open>try\<close> (the split and conversions of the declared date), and both handlers swallow it:
  the function always returns its list.
\<close>

definition cross_validate_nik_data :: "datetime \<Rightarrow> KTPData \<Rightarrow> string list" where
  "cross_validate_nik_data now ktp_data =
     (let tgl_lahir_nik = py_slice (nik ktp_data) 6 12 in
      case parse_ddmmyy tgl_lahir_nik of None \<Rightarrow> [] | Some (day_nik0, month_nik, year_nik) \<Rightarrow>
        let is_female_nik = (day_nik0 > 40);
            day_nik = (if is_female_nik then day_nik0 - 40 else day_nik0);
            errors = (case jenis_kelamin ktp_data of
                        None \<Rightarrow> []
                      | Some g \<Rightarrow>
                          let is_female_data = (JenisKelamin_value g = ''PEREMPUAN'') in
                          if is_female_nik \<noteq> is_female_data
                          then [''Jenis kelamin tidak sesuai dengan NIK''] else [])
        in if truthy (tanggal_lahir ktp_data) then
             (case parse_dmy (the (tanggal_lahir ktp_data)) of
                None \<Rightarrow> errors
              | Some (day_data, month_data, year_data) \<Rightarrow>
                let current_year = dt_year now;
                    year_nik_full = (if year_nik \<le> (current_year - 1900) mod 100
                                     then 2000 + year_nik else 1900 + year_nik)
                in errors @ (if day_nik \<noteq> day_data \<or> month_nik \<noteq> month_data \<or>
                                year_nik_full \<noteq> year_data
                             then [''Tanggal lahir tidak sesuai dengan NIK''] else []))
           else errors)"

text \<open>
  \<open>validate_ktp_data\<close>: the checks in the order of the source, each appending to
  \<open>errors\<close>. A member of one of the two enumerations is a non-empty string, so it is
  true in an \<open>if\<close>.
\<close>

definition validate_ktp_data :: "datetime \<Rightarrow> KTPData \<Rightarrow> py_error + (bool \<times> string list)" where
  "validate_ktp_data now ktp_data =
     (case validate_nik now (nik ktp_data) of Inl e \<Rightarrow> Inl e | Inr nik_errors \<Rightarrow>
      let errors = nik_errors;
          errors = errors @ (if nama ktp_data = [] \<or> length (py_strip (nama ktp_data)) < 2
                             then [''Nama tidak valid atau terlalu pendek''] else [])
      in case (if truthy (tanggal_lahir ktp_data)
               then validate_birth_date now (the (tanggal_lahir ktp_data)) else Inr []) of
           Inl e \<Rightarrow> Inl e
         | Inr date_errors \<Rightarrow>
      let errors = errors @ date_errors;
          errors = errors @ (case jenis_kelamin ktp_data of
                               None \<Rightarrow> []
                             | Some g \<Rightarrow>
                                 if JenisKelamin_value g \<notin> set valid_genders
                                 then [''Jenis kelamin tidak valid: '' @ JenisKelamin_value g]
                                 else []);
          errors = errors @ (if truthy (provinsi ktp_data)
                             then validate_province (the (provinsi ktp_data)) else []);
          errors = errors @ (if truthy (agama ktp_data) \<and>
                                py_upper (the (agama ktp_data)) \<notin> set valid_religions
                             then [''Agama tidak valid: '' @ the (agama ktp_data)] else []);
          errors = errors @ (case status_perkawinan ktp_data of
                               None \<Rightarrow> []
                             | Some st \<Rightarrow>
                                 if StatusPerkawinan_value st \<notin> set valid_marital_status
                                 then [''Status perkawinan tidak valid: '' @ StatusPerkawinan_value st]
                                 else []);
          errors = errors @ (if truthy (rt_rw ktp_data) \<and>
                                \<not> validate_rt_rw_format (the (rt_rw ktp_data))
                             then [''Format RT/RW tidak valid: '' @ the (rt_rw ktp_data)] else []);
          errors = errors @ (if nik ktp_data \<noteq> [] \<and> truthy (tanggal_lahir ktp_data)
                             then cross_validate_nik_data now ktp_data else [])
      in Inr (length errors = 0, errors))"

text \<open>\<open>calculate_confidence_score\<close>.\<close>

definition calculate_confidence_score :: "KTPValidationResult \<Rightarrow> real \<Rightarrow> real" where
  "calculate_confidence_score validation_result image_quality_score =
     (let base_score = confidence_score validation_result;
          base_score = (if validation_errors validation_result \<noteq> []
                        then base_score -
                             min 0.3 (real (length (validation_errors validation_result)) * 0.1)
                        else base_score);
          final_score = base_score * image_quality_score
      in max 0.0 (min 1.0 final_score))"

section \<open>The scoring step of \<open>verify_ktp\<close> (\<open>app/api/endpoints.py\<close>)\<close>

text \<open>Line 81: the image quality score from the verdict on the image.\<close>

definition image_quality_score_of :: "bool \<Rightarrow> real" where
  "image_quality_score_of image_quality_valid = (if \<not> image_quality_valid then 0.8 else 1.0)"

text \<open>
  Lines 99 to 110: the outcome of \<open>validate_ktp_data\<close> is written into the result of the
  extractor, then the confidence is recomputed.
\<close>

definition apply_validation ::
  "KTPValidationResult \<Rightarrow> bool \<times> string list \<Rightarrow> real \<Rightarrow> KTPValidationResult" where
  "apply_validation analysis_result outcome image_quality_score =
     (let data_valid = fst outcome;
          errs = snd outcome;
          analysis_result =
            (if \<not> data_valid then
               (let r = analysis_result\<lparr>validation_errors :=
                          validation_errors analysis_result @ errs\<rparr>
                in if length errs > 3 then r\<lparr>is_valid_ktp := False\<rparr> else r)
             else analysis_result);
          final_confidence = calculate_confidence_score analysis_result image_quality_score
      in analysis_result\<lparr>confidence_score := final_confidence\<rparr>)"

text \<open>Lines 93 to 110: the step runs only on a result the extractor called valid and that
  carries a record; an exception of the validator leaves the step.\<close>

definition verify_ktp_validation ::
  "datetime \<Rightarrow> real \<Rightarrow> KTPValidationResult \<Rightarrow> py_error + KTPValidationResult" where
  "verify_ktp_validation now image_quality_score analysis_result =
     (if is_valid_ktp analysis_result \<and> extracted_data analysis_result \<noteq> None then
        (case validate_ktp_data now (the (extracted_data analysis_result)) of
           Inl e \<Rightarrow> Inl e
         | Inr outcome \<Rightarrow> Inr (apply_validation analysis_result outcome image_quality_score))
      else Inr analysis_result)"

section \<open>Definitions that follow the specification, and example inputs\<close>

text \<open>
  The pivot rule as the specification words it (rule 3 of the field validator): a two-digit
  year up to \<open>(currentYear - 1900) mod 100\<close> belongs to the 2000s, a later one to the 1900s.
\<close>

definition expand_year :: "int \<Rightarrow> int \<Rightarrow> int" where
  "expand_year current_year yy =
     (if yy \<le> (current_year - 1900) mod 100 then 2000 + yy else 1900 + yy)"

text \<open>
  The number that two neighbouring digits of an identity number spell: positions 6, 8 and
  10 (counted from 0) give the raw day, the month and the two-digit year of the embedded
  birth date.
\<close>

definition two_digits :: "string \<Rightarrow> nat \<Rightarrow> int" where
  "two_digits s i = digit_val (s ! i) * 10 + digit_val (s ! (i + 1))"

text \<open>The penalty of the specification, \<open>min(0.3, defectCount * 0.1)\<close>.\<close>

definition defect_penalty :: "nat \<Rightarrow> real" where
  "defect_penalty n = min 0.3 (real n * 0.1)"


text \<open>The clamp to the unit interval that the specification applies to the extractor's
  confidence on input.\<close>

definition clamp01 :: "real \<Rightarrow> real" where
  "clamp01 x = max 0 (min 1 x)"

text \<open>A clock, a record with nothing but a well-formed identity number and a name, and a
  result of the extractor, used as concrete inputs below.\<close>

definition example_now :: datetime where
  "example_now = \<lparr>dt_year = 2026, dt_month = 11, dt_day = 4, dt_hour = 10, dt_minute = 30,
                   dt_second = 0, dt_microsecond = 0\<rparr>"

definition example_record :: KTPData where
  "example_record =
     \<lparr>nik = ''3201122501900001'', nama = ''AN'', tempat_lahir = None, tanggal_lahir = None,
      jenis_kelamin = None, alamat = None, rt_rw = None, kelurahan = None, kecamatan = None,
      kabupaten_kota = None, provinsi = None, agama = None, status_perkawinan = None,
      pekerjaan = None, kewarganegaraan = None, berlaku_hingga = None\<rparr>"

definition example_result :: KTPValidationResult where
  "example_result =
     \<lparr>is_valid_ktp = True, confidence_score = 0.9, extracted_data = Some example_record,
      validation_errors = [], processing_notes = None, database_id = None\<rparr>"

text \<open>Further example records: variations of the example record.\<close>

definition declared_female :: KTPData where
  "declared_female = example_record\<lparr>jenis_kelamin := Some PEREMPUAN\<rparr>"

definition declared_female_dated :: KTPData where
  "declared_female_dated =
     example_record\<lparr>jenis_kelamin := Some PEREMPUAN, tanggal_lahir := Some ''25-01-1990''\<rparr>"

definition short_nik_dated :: KTPData where
  "short_nik_dated =
     example_record\<lparr>nik := ''000000010190001'', jenis_kelamin := Some PEREMPUAN,
                     tanggal_lahir := Some ''01-01-1990''\<rparr>"

definition short_nik_plain :: KTPData where
  "short_nik_plain = example_record\<lparr>nik := ''000000010190001''\<rparr>"


definition four_defects_record :: KTPData where
  "four_defects_record = example_record\<lparr>nik := ''0000000000000000'', nama := ''''\<rparr>"

text \<open>
  Three classes of messages, by the rule that writes them: the messages of \<open>_validate_nik\<close>,
  the messages of the checks of the other fields, and the two messages of
  \<open>_cross_validate_nik_data\<close>.
\<close>

definition field_defect :: "string \<Rightarrow> bool" where
  "field_defect e =
     (e = ''Nama tidak valid atau terlalu pendek'' \<or>
      prefix ''Format tanggal lahir salah. Gunakan DD-MM-YYYY: '' e \<or>
      prefix ''Tanggal tidak valid: '' e \<or>
      prefix ''Bulan tidak valid: '' e \<or>
      prefix ''Tahun tidak valid: '' e \<or>
      e = ''Tanggal lahir tidak boleh di masa depan'' \<or>
      prefix ''Jenis kelamin tidak valid: '' e \<or>
      prefix ''Provinsi tidak dikenali: '' e \<or>
      prefix ''Agama tidak valid: '' e \<or>
      prefix ''Status perkawinan tidak valid: '' e \<or>
      prefix ''Format RT/RW tidak valid: '' e)"

definition nik_defect :: "string \<Rightarrow> bool" where
  "nik_defect e =
     (e = ''NIK tidak boleh kosong'' \<or>
      e = ''NIK harus 16 digit angka'' \<or>
      prefix ''Kode wilayah NIK tidak valid: '' e \<or>
      prefix ''Tanggal lahir dalam NIK tidak valid: '' e \<or>
      e = ''Nomor urut NIK tidak boleh 0000'')"

definition cross_defect :: "string \<Rightarrow> bool" where
  "cross_defect e =
     (e = ''Jenis kelamin tidak sesuai dengan NIK'' \<or> e = ''Tanggal lahir tidak sesuai dengan NIK'')"

section \<open>The confidence score\<close>

text \<open>
  Claim C8. For every confidence of the extractor, every list of defects and every image
  quality score, inside or outside the unit interval and also negative, the final
  confidence lies between 0 and 1: \<open>calculate_confidence_score\<close> returns such a value, and
  so does the confidence that the scoring step of \<open>verify_ktp\<close> stores in the result.
\<close>

theorem final_confidence_in_unit_interval:
  "0 \<le> calculate_confidence_score vr q \<and> calculate_confidence_score vr q \<le> 1 \<and>
   0 \<le> confidence_score (apply_validation ar outcome q) \<and>
   confidence_score (apply_validation ar outcome q) \<le> 1"
  by (simp add: calculate_confidence_score_def apply_validation_def Let_def)

text \<open>
  Claim C9, amended. For a fixed confidence of the extractor and a fixed image quality
  score that is not negative, the final confidence does not grow when the number of
  defects grows. (For a negative image quality score it can grow, see the counterexample
  below; the source never clamps that score.)
\<close>

theorem confidence_antitone_in_defects:
  assumes "0 \<le> q"
    and "confidence_score vr1 = confidence_score vr2"
    and "length (validation_errors vr1) \<le> length (validation_errors vr2)"
  shows "calculate_confidence_score vr2 q \<le> calculate_confidence_score vr1 q"
proof -
  let ?pen = "\<lambda>vr. if validation_errors vr \<noteq> []
                     then min 0.3 (real (length (validation_errors vr)) * 0.1) else (0::real)"
  have pen: "?pen vr1 \<le> ?pen vr2"
    using assms(3) by (auto simp: min_def)
  have sc: "calculate_confidence_score vr q =
              max 0 (min 1 ((confidence_score vr - ?pen vr) * q))" for vr
    by (simp add: calculate_confidence_score_def Let_def)
  have "(confidence_score vr2 - ?pen vr2) * q \<le> (confidence_score vr1 - ?pen vr1) * q"
    using pen assms(1,2) by (intro mult_right_mono) auto
  then show ?thesis
    unfolding sc by (simp add: max_def min_def)
qed

theorem confidence_antitone_in_defects_witness:
  "(0::real) \<le> 1 \<and>
   calculate_confidence_score (example_result\<lparr>validation_errors := [''a'', ''b'']\<rparr>) 1
     \<le> calculate_confidence_score (example_result\<lparr>validation_errors := [''a'']\<rparr>) 1"
  using confidence_antitone_in_defects
          [of 1 "example_result\<lparr>validation_errors := [''a'']\<rparr>"
                "example_result\<lparr>validation_errors := [''a'', ''b'']\<rparr>"]
  by simp

text \<open>
  With the image quality score \<open>-1\<close> and the confidence \<open>0.2\<close>, three defects give the
  final confidence \<open>0.1\<close> and no defect gives \<open>0\<close>: as stated for every image quality score,
  claim C9 fails.
\<close>

theorem confidence_antitone_counterexample:
  "\<not> calculate_confidence_score
        (example_result\<lparr>confidence_score := 0.2, validation_errors := [''a'', ''b'', ''c'']\<rparr>) (- 1)
      \<le> calculate_confidence_score
           (example_result\<lparr>confidence_score := 0.2, validation_errors := []\<rparr>) (- 1)"
  by (simp add: calculate_confidence_score_def example_result_def)

text \<open>
  Claim C3, amended. \<open>calculate_confidence_score\<close> does not clamp the confidence of the
  extractor on input: the final confidence is the clamp to the unit interval of the
  product (confidence minus penalty) times image quality score, with the confidence as it
  is. So for a positive image quality score, a confidence above 1 gives a final confidence
  strictly above the one computed with 1 whenever the latter is below 1 (and never below
  it for an image quality score that is not negative); for a confidence below 0 and an
  image quality score that is not negative, both the final confidence and the one
  computed with 0 are 0.
\<close>

theorem confidence_not_clamped_on_input:
  "calculate_confidence_score vr q =
     clamp01 ((confidence_score vr - defect_penalty (length (validation_errors vr))) * q) \<and>
   (0 < q \<and> 1 < confidence_score vr \<and>
    (1 - defect_penalty (length (validation_errors vr))) * q < 1 \<longrightarrow>
      calculate_confidence_score (vr\<lparr>confidence_score := 1\<rparr>) q
        < calculate_confidence_score vr q) \<and>
   (0 \<le> q \<and> 1 < confidence_score vr \<longrightarrow>
      calculate_confidence_score (vr\<lparr>confidence_score := 1\<rparr>) q
        \<le> calculate_confidence_score vr q) \<and>
   (0 \<le> q \<and> confidence_score vr < 0 \<longrightarrow>
      calculate_confidence_score vr q = 0 \<and>
      calculate_confidence_score (vr\<lparr>confidence_score := 0\<rparr>) q = 0)"
proof -
  define p where "p = defect_penalty (length (validation_errors vr))"
  have p: "0 \<le> p \<and> p \<le> 0.3" by (simp add: p_def defect_penalty_def)
  have sc: "calculate_confidence_score (vr\<lparr>confidence_score := c\<rparr>) q = clamp01 ((c - p) * q)"
    for c
    by (simp add: calculate_confidence_score_def Let_def clamp01_def p_def defect_penalty_def)
  have sc0: "calculate_confidence_score vr q = clamp01 ((confidence_score vr - p) * q)"
    by (simp add: calculate_confidence_score_def Let_def clamp01_def p_def defect_penalty_def)
  have strict: "clamp01 ((1 - p) * q) < clamp01 ((confidence_score vr - p) * q)"
    if "0 < q" "1 < confidence_score vr" "(1 - p) * q < 1"
  proof -
    have a: "0 < (1 - p) * q" using p that(1) by (intro mult_pos_pos) simp_all
    have b: "(1 - p) * q < (confidence_score vr - p) * q"
      using that(1,2) by (intro mult_strict_right_mono) simp_all
    from a b that(3) show ?thesis by (simp add: clamp01_def max_def min_def)
  qed
  have weak: "clamp01 ((1 - p) * q) \<le> clamp01 ((confidence_score vr - p) * q)"
    if "0 \<le> q" "1 < confidence_score vr"
  proof -
    have "(1 - p) * q \<le> (confidence_score vr - p) * q"
      using that by (intro mult_right_mono) simp_all
    then show ?thesis by (simp add: clamp01_def max_def min_def)
  qed
  have neg: "clamp01 ((confidence_score vr - p) * q) = 0 \<and> clamp01 ((0 - p) * q) = 0"
    if "0 \<le> q" "confidence_score vr < 0"
  proof -
    have "(confidence_score vr - p) * q \<le> 0" "(0 - p) * q \<le> 0"
      using that p by (simp_all add: mult_nonpos_nonneg)
    then show ?thesis by (simp add: clamp01_def max_def min_def)
  qed
  show ?thesis
    unfolding sc sc0 p_def [symmetric] using strict weak neg by blast
qed

theorem confidence_not_clamped_on_input_witness:
  "(0::real) < 1 / 4 \<and> 1 < confidence_score (example_result\<lparr>confidence_score := 2\<rparr>) \<and>
   calculate_confidence_score
     (example_result\<lparr>confidence_score := 2\<rparr>\<lparr>confidence_score := 1\<rparr>) (1 / 4)
     < calculate_confidence_score (example_result\<lparr>confidence_score := 2\<rparr>) (1 / 4)"
  using confidence_not_clamped_on_input [of "example_result\<lparr>confidence_score := 2\<rparr>" "1 / 4"]
  by (simp add: example_result_def defect_penalty_def)

text \<open>
  With the confidence 2, no defect and the image quality score \<open>1/4\<close> the source returns
  \<open>1/2\<close>, and \<open>1/4\<close> once the confidence is replaced by 1: the confidence is not clamped
  before the product, and claim C3 fails as stated.
\<close>

theorem confidence_input_clamp_counterexample:
  "calculate_confidence_score (example_result\<lparr>confidence_score := 2\<rparr>) (1 / 4)
     \<noteq> calculate_confidence_score (example_result\<lparr>confidence_score := 1\<rparr>) (1 / 4)"
  by (simp add: calculate_confidence_score_def example_result_def)

section \<open>Digits, slices and the embedded date\<close>

lemma is_digit_not_int_space: "is_digit c \<Longrightarrow> \<not> is_int_space c"
  by (simp add: is_digit_def is_int_space_def)

lemma is_digit_not_sign: "is_digit c \<Longrightarrow> c \<noteq> CHR ''-'' \<and> c \<noteq> CHR ''+'' \<and> c \<noteq> CHR ''_''"
  by (auto simp: is_digit_def)

lemma digit_val_range: "is_digit c \<Longrightarrow> 0 \<le> digit_val c \<and> digit_val c \<le> 9"
  by (auto simp: is_digit_def digit_val_def)

lemma py_int_two_digits:
  assumes "is_digit a" "is_digit b"
  shows "py_int [a, b] = Some (digit_val a * 10 + digit_val b)"
  using assms is_digit_not_sign [of a] is_digit_not_int_space [of a] is_digit_not_int_space [of b]
  by (simp add: py_int_def)

lemma slice2:
  assumes "i + 2 \<le> length s"
  shows "py_slice s i (i + 2) = [s ! i, s ! (i + 1)]"
proof -
  have "take 2 (drop i s) = [drop i s ! 0, drop i s ! 1]"
    using assms by (intro nth_equalityI) (auto simp: less_Suc_eq numeral_2_eq_2)
  then show ?thesis using assms by (simp add: py_slice_def)
qed

lemma slice_of_slice2:
  assumes "a + 6 \<le> length s" "j = i + 2" "j \<le> 6"
  shows "py_slice (py_slice s a (a + 6)) i j = [s ! (a + i), s ! (a + i + 1)]"
proof (rule nth_equalityI)
  show "length (py_slice (py_slice s a (a + 6)) i j) = length [s ! (a + i), s ! (a + i + 1)]"
    using assms by (simp add: py_slice_def)
next
  fix k assume "k < length (py_slice (py_slice s a (a + 6)) i j)"
  then have k: "k < 2" using assms by (simp add: py_slice_def)
  then have "k = 0 \<or> k = 1" by auto
  then show "py_slice (py_slice s a (a + 6)) i j ! k = [s ! (a + i), s ! (a + i + 1)] ! k"
    using assms by (auto simp: py_slice_def add.assoc)
qed

lemma parse_ddmmyy_digits:
  assumes "a + 6 \<le> length s" "list_all is_digit (py_slice s a (a + 6))"
  shows "parse_ddmmyy (py_slice s a (a + 6)) =
           Some (two_digits s a, two_digits s (a + 2), two_digits s (a + 4))"
proof -
  have d: "is_digit (s ! j)" if "a \<le> j" "j < a + 6" for j
  proof -
    have "py_slice s a (a + 6) ! (j - a) = s ! j"
      using assms(1) that by (simp add: py_slice_def)
    moreover have "j - a < length (py_slice s a (a + 6))"
      using assms(1) that by (simp add: py_slice_def)
    ultimately show ?thesis using assms(2) by (metis list_all_length)
  qed
  have s0: "py_slice (py_slice s a (a + 6)) 0 2 = [s ! (a + 0), s ! (a + 0 + 1)]"
    by (rule slice_of_slice2 [OF assms(1)]) simp_all
  have s2: "py_slice (py_slice s a (a + 6)) 2 4 = [s ! (a + 2), s ! (a + 2 + 1)]"
    by (rule slice_of_slice2 [OF assms(1)]) simp_all
  have s4: "py_slice (py_slice s a (a + 6)) 4 6 = [s ! (a + 4), s ! (a + 4 + 1)]"
    by (rule slice_of_slice2 [OF assms(1)]) simp_all
  have dg: "is_digit (s ! (a + 0))" "is_digit (s ! (a + 0 + 1))" "is_digit (s ! (a + 2))"
    "is_digit (s ! (a + 2 + 1))" "is_digit (s ! (a + 4))" "is_digit (s ! (a + 4 + 1))"
    by (rule d; simp)+
  have a0: "a + 0 = a" by simp
  show ?thesis
    unfolding parse_ddmmyy_def s0 s2 s4 two_digits_def
    using dg by (simp only: py_int_two_digits option.case prod.case a0)
qed

lemma two_digits_range:
  "is_digit (s ! i) \<Longrightarrow> is_digit (s ! (i + 1)) \<Longrightarrow> 0 \<le> two_digits s i \<and> two_digits s i \<le> 99"
  using digit_val_range [of "s ! i"] digit_val_range [of "s ! (i + 1)"]
  by (simp add: two_digits_def)


lemma match_nik_slice_digits:
  assumes "match_nik n"
  shows "6 + 6 \<le> length n \<and> list_all is_digit (py_slice n 6 (6 + 6))"
proof -
  have len: "16 \<le> length n" and dg: "list_all is_digit (take 16 n)"
    using assms by (simp_all add: match_nik_def)
  have "set (py_slice n 6 (6 + 6)) \<subseteq> set (take 16 n)"
  proof -
    have "py_slice n 6 (6 + 6) = take 6 (drop 6 (take 16 n))"
      by (simp add: py_slice_def drop_take)
    then show ?thesis
      by (metis set_take_subset set_drop_subset subset_trans)
  qed
  then show ?thesis using len dg by (auto simp: list_all_iff)
qed

lemma sixteen_digits_match: "length n = 16 \<Longrightarrow> list_all is_digit n \<Longrightarrow> match_nik n"
  by (simp add: match_nik_def at_dollar_def)

lemma parse_embedded:
  assumes "match_nik n"
  shows "parse_ddmmyy (py_slice n 6 12) = Some (two_digits n 6, two_digits n 8, two_digits n 10)"
  using parse_ddmmyy_digits [of 6 n] match_nik_slice_digits [OF assms] by simp

section \<open>The messages of each rule\<close>

lemma field_defect_intros:
  "field_defect ''Nama tidak valid atau terlalu pendek''"
  "field_defect (''Format tanggal lahir salah. Gunakan DD-MM-YYYY: '' @ x)"
  "field_defect (''Tanggal tidak valid: '' @ x)"
  "field_defect (''Bulan tidak valid: '' @ x)"
  "field_defect (''Tahun tidak valid: '' @ x)"
  "field_defect ''Tanggal lahir tidak boleh di masa depan''"
  "field_defect (''Jenis kelamin tidak valid: '' @ x)"
  "field_defect (''Provinsi tidak dikenali: '' @ x)"
  "field_defect (''Agama tidak valid: '' @ x)"
  "field_defect (''Status perkawinan tidak valid: '' @ x)"
  "field_defect (''Format RT/RW tidak valid: '' @ x)"
  unfolding field_defect_def by simp_all

lemmas field_defect_simps = field_defect_intros [unfolded append.simps]


lemma gender_check_empty:
  "(case g of None \<Rightarrow> [] | Some x \<Rightarrow>
      if JenisKelamin_value x \<notin> set valid_genders then [m x] else []) = []"
proof (cases g)
  case None
  then show ?thesis by simp
next
  case (Some x)
  then show ?thesis by (cases x) (simp_all add: valid_genders_def)
qed

lemma status_check_empty:
  "(case g of None \<Rightarrow> [] | Some x \<Rightarrow>
      if StatusPerkawinan_value x \<notin> set valid_marital_status then [m x] else []) = []"
proof (cases g)
  case None
  then show ?thesis by simp
next
  case (Some x)
  then show ?thesis by (cases x) (simp_all add: valid_marital_status_def)
qed

lemma validate_birth_date_msgs:
  assumes "validate_birth_date now t = Inr de"
  shows "\<forall>e\<in>set de. field_defect e"
proof (cases "parse_dmy t")
  case None
  then show ?thesis
    using assms by (auto simp: validate_birth_date_def field_defect_simps)
next
  case (Some dmy)
  obtain d m y where dmy: "dmy = (d, m, y)" by (cases dmy) auto
  show ?thesis
  proof (cases "datetime_new y m d")
    case (Inl e)
    then show ?thesis
      using assms Some dmy
      by (cases e) (auto simp: validate_birth_date_def field_defect_simps)
  next
    case (Inr td)
    then show ?thesis
      using assms Some dmy
      by (auto simp: validate_birth_date_def field_defect_simps)
  qed
qed

lemma validate_province_msgs: "\<forall>e\<in>set (validate_province p). field_defect e"
  by (simp add: validate_province_def Let_def field_defect_simps)

lemma nik_defect_intros:
  "nik_defect ''NIK tidak boleh kosong''"
  "nik_defect ''NIK harus 16 digit angka''"
  "nik_defect (''Kode wilayah NIK tidak valid: '' @ x)"
  "nik_defect (''Tanggal lahir dalam NIK tidak valid: '' @ x)"
  "nik_defect ''Nomor urut NIK tidak boleh 0000''"
  unfolding nik_defect_def by simp_all

lemmas nik_defect_simps = nik_defect_intros [unfolded append.simps]

lemma validate_nik_msgs:
  assumes "validate_nik now n = Inr ne"
  shows "\<forall>e\<in>set ne. nik_defect e"
proof (cases "n = [] \<or> \<not> match_nik n")
  case True
  then show ?thesis
    using assms by (auto simp: validate_nik_def nik_defect_simps split: if_splits)
next
  case False
  show ?thesis
  proof (cases "validate_birth_date_in_nik now (py_slice n 6 12)")
    case (Inl e)
    then show ?thesis
      using assms False by (simp add: validate_nik_def)
  next
    case (Inr ok)
    then have "ne = (if \<not> validate_region_code (py_slice n 0 6)
                     then [''Kode wilayah NIK tidak valid: '' @ py_slice n 0 6] else []) @
                    (if \<not> ok then [''Tanggal lahir dalam NIK tidak valid: '' @ py_slice n 6 12]
                     else []) @
                    (if py_slice n 12 16 = ''0000'' then [''Nomor urut NIK tidak boleh 0000'']
                     else [])"
      using assms False by (simp add: validate_nik_def Let_def)
    then show ?thesis
      by (auto simp: nik_defect_simps)
  qed
qed

lemma cross_msgs: "\<forall>e\<in>set (cross_validate_nik_data now k). cross_defect e"
proof (cases "parse_ddmmyy (py_slice (nik k) 6 12)")
  case None
  then show ?thesis by (simp add: cross_validate_nik_data_def)
next
  case (Some dmy)
  obtain d m y where dmy: "dmy = (d, m, y)" by (cases dmy) auto
  show ?thesis
  proof (cases "truthy (tanggal_lahir k)")
    case False
    then show ?thesis
      using Some dmy by (cases "jenis_kelamin k") (auto simp: cross_validate_nik_data_def Let_def cross_defect_def)
  next
    case True
    show ?thesis
    proof (cases "parse_dmy (the (tanggal_lahir k))")
      case None
      then show ?thesis
        using Some dmy True by (cases "jenis_kelamin k") (auto simp: cross_validate_nik_data_def Let_def cross_defect_def)
    next
      case (Some dmy')
      obtain d' m' y' where dmy': "dmy' = (d', m', y')" by (cases dmy') auto
      show ?thesis
        using Some \<open>parse_ddmmyy (py_slice (nik k) 6 12) = Some dmy\<close> dmy dmy' True
        by (cases "jenis_kelamin k") (auto simp: cross_validate_nik_data_def Let_def cross_defect_def)
    qed
  qed
qed

lemma validate_ktp_data_parts:
  assumes "validate_ktp_data now k = Inr (ok, errs)"
  shows "\<exists>ne mid. validate_nik now (nik k) = Inr ne \<and>
           errs = ne @ mid @ (if nik k \<noteq> [] \<and> truthy (tanggal_lahir k)
                             then cross_validate_nik_data now k else []) \<and>
           (\<forall>e\<in>set mid. field_defect e) \<and> ok = (errs = [])"
proof (cases "validate_nik now (nik k)")
  case (Inl e)
  then show ?thesis using assms by (simp add: validate_ktp_data_def)
next
  case (Inr ne)
  let ?date = "if truthy (tanggal_lahir k)
               then validate_birth_date now (the (tanggal_lahir k)) else Inr []"
  show ?thesis
  proof (cases ?date)
    case (Inl e)
    then show ?thesis using assms Inr by (simp add: validate_ktp_data_def Let_def)
  next
    case de: (Inr de)
    have fd: "\<forall>e\<in>set de. field_defect e"
      using de validate_birth_date_msgs [of now "the (tanggal_lahir k)" de]
      by (cases "truthy (tanggal_lahir k)") auto
    let ?nm = "if nama k = [] \<or> length (py_strip (nama k)) < 2
               then [''Nama tidak valid atau terlalu pendek''] else []"
    let ?pr = "if truthy (provinsi k) then validate_province (the (provinsi k)) else []"
    let ?ag = "if truthy (agama k) \<and> py_upper (the (agama k)) \<notin> set valid_religions
               then [''Agama tidak valid: '' @ the (agama k)] else []"
    let ?rt = "if truthy (rt_rw k) \<and> \<not> validate_rt_rw_format (the (rt_rw k))
               then [''Format RT/RW tidak valid: '' @ the (rt_rw k)] else []"
    let ?cr = "if nik k \<noteq> [] \<and> truthy (tanggal_lahir k)
               then cross_validate_nik_data now k else []"
    let ?mid = "?nm @ de @ ?pr @ ?ag @ ?rt"
    have eq: "validate_ktp_data now k =
                Inr (length (ne @ ?mid @ ?cr) = 0, ne @ ?mid @ ?cr)"
      unfolding validate_ktp_data_def Let_def Inr de gender_check_empty status_check_empty
      by (simp only: sum.case append_Nil2 append_assoc)
    have mid: "\<forall>e\<in>set ?mid. field_defect e"
      using fd validate_province_msgs [of "the (provinsi k)"]
      by (auto simp: field_defect_simps)
    from eq assms have "errs = ne @ ?mid @ ?cr" "ok = (errs = [])"
      by simp_all
    with Inr mid show ?thesis by blast
  qed
qed

lemma field_not_nik_subrule:
  assumes "field_defect e"
  shows "\<not> prefix ''Kode wilayah NIK tidak valid: '' e \<and>
         \<not> prefix ''Tanggal lahir dalam NIK tidak valid: '' e \<and>
         e \<noteq> ''Nomor urut NIK tidak boleh 0000'' \<and> e \<noteq> ''NIK harus 16 digit angka'' \<and>
         \<not> cross_defect e"
  using assms unfolding field_defect_def cross_defect_def
  by (elim disjE prefixE) simp_all

lemma cross_not_nik_subrule:
  assumes "cross_defect e"
  shows "\<not> prefix ''Kode wilayah NIK tidak valid: '' e \<and>
         \<not> prefix ''Tanggal lahir dalam NIK tidak valid: '' e \<and>
         e \<noteq> ''Nomor urut NIK tidak boleh 0000'' \<and> e \<noteq> ''NIK harus 16 digit angka''"
  using assms unfolding cross_defect_def by (elim disjE) simp_all

lemma nik_not_cross:
  assumes "nik_defect e"
  shows "\<not> cross_defect e"
  using assms unfolding nik_defect_def cross_defect_def
  by (elim disjE prefixE) simp_all

lemma cross_validate_structure:
  assumes "parse_ddmmyy (py_slice (nik k) 6 12) = Some (d, m, y)"
  shows "cross_validate_nik_data now k =
           (case jenis_kelamin k of None \<Rightarrow> []
            | Some g \<Rightarrow> if (40 < d) \<noteq> (g = PEREMPUAN)
                        then [''Jenis kelamin tidak sesuai dengan NIK''] else []) @
           (if truthy (tanggal_lahir k) then
              (case parse_dmy (the (tanggal_lahir k)) of None \<Rightarrow> []
               | Some (d', m', y') \<Rightarrow>
                   if (if 40 < d then d - 40 else d) \<noteq> d' \<or> m \<noteq> m' \<or>
                      expand_year (dt_year now) y \<noteq> y'
                   then [''Tanggal lahir tidak sesuai dengan NIK''] else [])
            else [])"
proof -
  have pv: "(JenisKelamin_value g = ''PEREMPUAN'') = (g = PEREMPUAN)" for g
    by (cases g) simp_all
  let ?sx = "case jenis_kelamin k of None \<Rightarrow> []
             | Some g \<Rightarrow> if (40 < d) \<noteq> (g = PEREMPUAN)
                         then [''Jenis kelamin tidak sesuai dengan NIK''] else []"
  have sx: "(case jenis_kelamin k of None \<Rightarrow> []
             | Some g \<Rightarrow> let is_female_data = (JenisKelamin_value g = ''PEREMPUAN'')
                         in if (40 < d) \<noteq> is_female_data
                            then [''Jenis kelamin tidak sesuai dengan NIK''] else []) = ?sx"
    by (cases "jenis_kelamin k") (simp_all add: Let_def pv)
  show ?thesis
  proof (cases "truthy (tanggal_lahir k)")
    case False
    then show ?thesis
      using assms by (simp add: cross_validate_nik_data_def Let_def sx)
  next
    case True
    show ?thesis
    proof (cases "parse_dmy (the (tanggal_lahir k))")
      case None
      then show ?thesis
        using assms True by (simp add: cross_validate_nik_data_def Let_def sx)
    next
      case (Some dmy')
      obtain d' m' y' where "dmy' = (d', m', y')" by (cases dmy') auto
      then show ?thesis
        using assms True Some
        by (simp add: cross_validate_nik_data_def Let_def sx expand_year_def)
    qed
  qed
qed

lemma sex_part_iff:
  "(''Jenis kelamin tidak sesuai dengan NIK'' \<in> set
      (case sx of None \<Rightarrow> []
       | Some g \<Rightarrow> if (40 < d) \<noteq> (g = PEREMPUAN)
                   then [''Jenis kelamin tidak sesuai dengan NIK''] else [])) =
   (\<exists>g. sx = Some g \<and> (40 < (d::int)) \<noteq> (g = PEREMPUAN))"
  by (cases sx) simp_all

lemma sex_part_no_date:
  "''Tanggal lahir tidak sesuai dengan NIK'' \<notin> set
      (case sx of None \<Rightarrow> []
       | Some g \<Rightarrow> if (40 < (d::int)) \<noteq> (g = PEREMPUAN)
                   then [''Jenis kelamin tidak sesuai dengan NIK''] else [])"
  by (cases sx) simp_all

lemma date_part_iff:
  "(x \<in> set (case p of None \<Rightarrow> []
              | Some (d', m', y') \<Rightarrow> if c d' m' y' then [msg] else [])) =
   (\<exists>d' m' y'. p = Some (d', m', y') \<and> c d' m' y' \<and> x = msg)"
proof (cases p)
  case None
  then show ?thesis by simp
next
  case (Some t)
  then show ?thesis by (cases t) auto
qed

lemma cross_sex_iff:
  assumes "parse_ddmmyy (py_slice (nik k) 6 12) = Some (d, m, y)"
  shows "(''Jenis kelamin tidak sesuai dengan NIK'' \<in> set (cross_validate_nik_data now k)) =
         (\<exists>g. jenis_kelamin k = Some g \<and> (40 < d) \<noteq> (g = PEREMPUAN))"
  unfolding cross_validate_structure [OF assms] set_append Un_iff sex_part_iff
  by (cases "truthy (tanggal_lahir k)") (simp_all add: date_part_iff)

lemma cross_date_iff:
  assumes "parse_ddmmyy (py_slice (nik k) 6 12) = Some (d, m, y)"
    and "truthy (tanggal_lahir k)"
    and "parse_dmy (the (tanggal_lahir k)) = Some (d', m', y')"
  shows "(''Tanggal lahir tidak sesuai dengan NIK'' \<in> set (cross_validate_nik_data now k)) =
         ((if 40 < d then d - 40 else d) \<noteq> d' \<or> m \<noteq> m' \<or>
          expand_year (dt_year now) y \<noteq> y')"
  using sex_part_no_date [of d "jenis_kelamin k"] assms(2,3)
  by (simp add: cross_validate_structure [OF assms(1)])

section \<open>The embedded birth date\<close>

lemma validate_birth_date_in_nik_32_40:
  assumes "parse_ddmmyy s = Some (d, m, y)" "32 \<le> d" "d \<le> 40"
  shows "validate_birth_date_in_nik now s = Inr False"
  using assms by (simp add: validate_birth_date_in_nik_def)

text \<open>
  Claim C10. For a sixteen-digit identity number whose raw embedded day (digits 7 and 8)
  lies between 32 and 40, the check of the embedded birth date fails whatever the month,
  the year and the clock are: \<open>_validate_nik\<close> returns a list with the defect of the
  embedded date, and so does \<open>validate_ktp_data\<close> whenever it returns. The day is above 31
  and is not reduced, since 40 is subtracted only from a day above 40.
\<close>

theorem embedded_day_32_to_40_rejected:
  assumes "length n = 16" and "list_all is_digit n"
    and "32 \<le> two_digits n 6" and "two_digits n 6 \<le> 40"
  shows "validate_birth_date_in_nik now (py_slice n 6 12) = Inr False \<and>
         (\<exists>errs. validate_nik now n = Inr errs \<and>
            (''Tanggal lahir dalam NIK tidak valid: '' @ py_slice n 6 12) \<in> set errs) \<and>
         (\<forall>k ok errs. nik k = n \<and> validate_ktp_data now k = Inr (ok, errs) \<longrightarrow>
            \<not> ok \<and> (''Tanggal lahir dalam NIK tidak valid: '' @ py_slice n 6 12) \<in> set errs)"
proof -
  have mn: "match_nik n" using assms(1,2) by (rule sixteen_digits_match)
  have ne: "n \<noteq> []" using assms(1) by auto
  have bd: "validate_birth_date_in_nik now (py_slice n 6 12) = Inr False"
    using validate_birth_date_in_nik_32_40 [OF parse_embedded [OF mn] assms(3,4)] .
  have vn: "\<exists>errs. validate_nik now n = Inr errs \<and>
            (''Tanggal lahir dalam NIK tidak valid: '' @ py_slice n 6 12) \<in> set errs"
    using mn ne bd by (simp add: validate_nik_def Let_def)
  have vk: "\<not> ok \<and> (''Tanggal lahir dalam NIK tidak valid: '' @ py_slice n 6 12) \<in> set errs"
    if kn: "nik k = n" and kv: "validate_ktp_data now k = Inr (ok, errs)" for k ok errs
  proof -
    obtain ne' mid where p: "validate_nik now (nik k) = Inr ne'"
        "errs = ne' @ mid @ (if nik k \<noteq> [] \<and> truthy (tanggal_lahir k)
                             then cross_validate_nik_data now k else [])"
        "ok = (errs = [])"
      using validate_ktp_data_parts [OF kv] by blast
    from vn p(1) kn
    have "(''Tanggal lahir dalam NIK tidak valid: '' @ py_slice n 6 12) \<in> set ne'" by auto
    then have "(''Tanggal lahir dalam NIK tidak valid: '' @ py_slice n 6 12) \<in> set errs"
      unfolding p(2) by simp
    then show ?thesis using p(3) by auto
  qed
  from bd vn vk show ?thesis by blast
qed

theorem embedded_day_32_to_40_rejected_witness:
  "length ''3201123501900001'' = 16 \<and> list_all is_digit ''3201123501900001'' \<and>
   32 \<le> two_digits ''3201123501900001'' 6 \<and> two_digits ''3201123501900001'' 6 \<le> 40 \<and>
   validate_birth_date_in_nik example_now (py_slice ''3201123501900001'' 6 12) = Inr False"
proof -
  have h1: "length ''3201123501900001'' = 16" by simp
  have h2: "list_all is_digit ''3201123501900001''" by (simp add: is_digit_def)
  have h3: "32 \<le> two_digits ''3201123501900001'' 6"
    and h4: "two_digits ''3201123501900001'' 6 \<le> 40"
    by (simp_all add: two_digits_def digit_val_def)
  show ?thesis
    using h1 h2 h3 h4 embedded_day_32_to_40_rejected [OF h1 h2 h3 h4, of example_now]
    by blast
qed

section \<open>The cross-checks against the identity number\<close>

text \<open>
  Claim C4, amended. For a record whose identity number is exactly sixteen digits, whose
  declared sex is present and on which \<open>validate_ktp_data\<close> returns, the defect "sex does
  not match the identity number" is in the list if and only if a declared birth date is
  present (a non-empty string) and the embedded sex (female if and only if the raw day,
  digits 7 and 8, is above 40) differs from the declared sex. Whether the declared date
  parses, and whether the embedded date is itself valid, plays no role; but
  \<open>validate_ktp_data\<close> calls the cross-check only when a declared birth date is present.
\<close>

theorem sex_cross_check_needs_birth_date:
  assumes "length (nik k) = 16" and "list_all is_digit (nik k)"
    and "jenis_kelamin k = Some g"
    and "validate_ktp_data now k = Inr (ok, errs)"
  shows "(''Jenis kelamin tidak sesuai dengan NIK'' \<in> set errs) =
         (truthy (tanggal_lahir k) \<and> (40 < two_digits (nik k) 6) \<noteq> (g = PEREMPUAN))"
proof -
  let ?sx = "''Jenis kelamin tidak sesuai dengan NIK''"
  have mn: "match_nik (nik k)" using assms(1,2) by (rule sixteen_digits_match)
  have ne: "nik k \<noteq> []" using assms(1) by auto
  obtain ne' mid where p: "validate_nik now (nik k) = Inr ne'"
      "errs = ne' @ mid @ (if nik k \<noteq> [] \<and> truthy (tanggal_lahir k)
                           then cross_validate_nik_data now k else [])"
      "\<forall>e\<in>set mid. field_defect e"
    using validate_ktp_data_parts [OF assms(4)] by blast
  have cd: "cross_defect ?sx" by (simp add: cross_defect_def)
  have n1: "?sx \<notin> set ne'"
    using validate_nik_msgs [OF p(1)] nik_not_cross cd by blast
  have n2: "?sx \<notin> set mid"
    using p(3) field_not_nik_subrule cd by blast
  have "(?sx \<in> set errs) =
          (truthy (tanggal_lahir k) \<and> ?sx \<in> set (cross_validate_nik_data now k))"
    unfolding p(2) using n1 n2 ne by simp
  also have "\<dots> = (truthy (tanggal_lahir k) \<and> (40 < two_digits (nik k) 6) \<noteq> (g = PEREMPUAN))"
    unfolding cross_sex_iff [OF parse_embedded [OF mn]] using assms(3) by simp
  finally show ?thesis .
qed

theorem sex_cross_check_needs_birth_date_witness:
  "length (nik declared_female_dated) = 16 \<and> list_all is_digit (nik declared_female_dated) \<and>
   jenis_kelamin declared_female_dated = Some PEREMPUAN \<and>
   validate_ktp_data example_now declared_female_dated =
     Inr (False, [''Jenis kelamin tidak sesuai dengan NIK'']) \<and>
   truthy (tanggal_lahir declared_female_dated) \<and>
   \<not> 40 < two_digits (nik declared_female_dated) 6"
proof -
  have h1: "length (nik declared_female_dated) = 16"
    and h2: "list_all is_digit (nik declared_female_dated)"
    and h3: "jenis_kelamin declared_female_dated = Some PEREMPUAN"
    by (simp_all add: declared_female_dated_def example_record_def is_digit_def)
  have h4: "validate_ktp_data example_now declared_female_dated =
     Inr (False, [''Jenis kelamin tidak sesuai dengan NIK''])"
    by code_simp
  show ?thesis
    using h1 h2 h3 h4 sex_cross_check_needs_birth_date [OF h1 h2 h3 h4] by simp
qed

text \<open>
  A record with a well-formed identity number whose raw day is 25 (male), the declared sex
  female and no declared birth date has no defect at all: as stated, irrespective of the
  presence of a declared birth date, claim C4 fails.
\<close>

theorem sex_cross_check_counterexample:
  "length (nik declared_female) = 16 \<and> list_all is_digit (nik declared_female) \<and>
   jenis_kelamin declared_female = Some PEREMPUAN \<and>
   \<not> 40 < two_digits (nik declared_female) 6 \<and>
   validate_ktp_data example_now declared_female = Inr (True, [])"
proof -
  have "validate_ktp_data example_now declared_female = Inr (True, [])"
    by code_simp
  then show ?thesis
    by (simp add: declared_female_def example_record_def is_digit_def two_digits_def
        digit_val_def)
qed

text \<open>
  Claim C5, amended. For a record whose identity number is not empty and does not match
  the sixteen-digit pattern, and on which \<open>validate_ktp_data\<close> returns, the list contains
  the shape defect exactly once and no defect of the region, of the embedded date or of
  the sequence number, whatever the other fields are; and it contains no defect of the
  cross-validation when no declared birth date is present. (With a declared birth date
  the cross-validation still runs on the malformed number, see the counterexample.)
\<close>

theorem malformed_nik_one_shape_defect:
  assumes "nik k \<noteq> []" and "\<not> match_nik (nik k)"
    and "validate_ktp_data now k = Inr (ok, errs)"
  shows "count_list errs ''NIK harus 16 digit angka'' = 1 \<and>
         (\<forall>e\<in>set errs. \<not> prefix ''Kode wilayah NIK tidak valid: '' e \<and>
                       \<not> prefix ''Tanggal lahir dalam NIK tidak valid: '' e \<and>
                       e \<noteq> ''Nomor urut NIK tidak boleh 0000'') \<and>
         (\<not> truthy (tanggal_lahir k) \<longrightarrow>
            ''Jenis kelamin tidak sesuai dengan NIK'' \<notin> set errs \<and>
            ''Tanggal lahir tidak sesuai dengan NIK'' \<notin> set errs)"
proof -
  let ?sh = "''NIK harus 16 digit angka''"
  let ?cr = "if nik k \<noteq> [] \<and> truthy (tanggal_lahir k)
             then cross_validate_nik_data now k else []"
  have vn: "validate_nik now (nik k) = Inr [?sh]"
    using assms(1,2) by (simp add: validate_nik_def)
  obtain ne' mid where p: "validate_nik now (nik k) = Inr ne'"
      "errs = ne' @ mid @ ?cr" "\<forall>e\<in>set mid. field_defect e"
    using validate_ktp_data_parts [OF assms(3)] by blast
  have ne': "ne' = [?sh]" using vn p(1) by simp
  have cr: "\<forall>e\<in>set ?cr. cross_defect e"
    using cross_msgs [of now k] by simp
  have m0: "?sh \<notin> set mid" using p(3) field_not_nik_subrule by blast
  have c0: "?sh \<notin> set ?cr" using cr cross_not_nik_subrule by blast
  have cnt: "count_list errs ?sh = 1"
  proof -
    have "count_list mid ?sh = 0" "count_list ?cr ?sh = 0"
      using m0 c0 by (simp_all only: count_list_0_iff not_False_eq_True)
    then show ?thesis unfolding p(2) ne' by (simp only: count_list_append count_list.simps) simp
  qed
  have sub: "\<not> prefix ''Kode wilayah NIK tidak valid: '' e \<and>
             \<not> prefix ''Tanggal lahir dalam NIK tidak valid: '' e \<and>
             e \<noteq> ''Nomor urut NIK tidak boleh 0000''" if "e \<in> set errs" for e
  proof -
    from that have "e = ?sh \<or> e \<in> set mid \<or> e \<in> set ?cr"
      unfolding p(2) ne' by auto
    then show ?thesis
    proof (elim disjE)
      assume "e = ?sh" then show ?thesis by simp
    next
      assume "e \<in> set mid" then show ?thesis using p(3) field_not_nik_subrule by blast
    next
      assume "e \<in> set ?cr" then show ?thesis using cr cross_not_nik_subrule by blast
    qed
  qed
  have nod: "''Jenis kelamin tidak sesuai dengan NIK'' \<notin> set errs \<and>
             ''Tanggal lahir tidak sesuai dengan NIK'' \<notin> set errs"
    if nt: "\<not> truthy (tanggal_lahir k)"
  proof -
    have e: "errs = ?sh # mid" unfolding p(2) ne' using nt by simp
    have sx: "cross_defect ''Jenis kelamin tidak sesuai dengan NIK''"
      and dt: "cross_defect ''Tanggal lahir tidak sesuai dengan NIK''"
      by (simp_all add: cross_defect_def)
    have "''Jenis kelamin tidak sesuai dengan NIK'' \<notin> set mid"
      using p(3) field_not_nik_subrule sx by blast
    moreover have "''Tanggal lahir tidak sesuai dengan NIK'' \<notin> set mid"
      using p(3) field_not_nik_subrule dt by blast
    ultimately show ?thesis unfolding e by simp
  qed
  from cnt sub nod show ?thesis by blast
qed

theorem malformed_nik_one_shape_defect_witness:
  "nik short_nik_plain \<noteq> [] \<and> \<not> match_nik (nik short_nik_plain) \<and>
   validate_ktp_data example_now short_nik_plain = Inr (False, [''NIK harus 16 digit angka'']) \<and>
   count_list [''NIK harus 16 digit angka''] ''NIK harus 16 digit angka'' = 1"
proof -
  have h1: "nik short_nik_plain \<noteq> []" and h2: "\<not> match_nik (nik short_nik_plain)"
    by (simp_all add: short_nik_plain_def example_record_def match_nik_def)
  have h3: "validate_ktp_data example_now short_nik_plain =
              Inr (False, [''NIK harus 16 digit angka''])"
    by code_simp
  show ?thesis
    using h1 h2 h3 malformed_nik_one_shape_defect [OF h1 h2 h3] by simp
qed

text \<open>
  The fifteen-digit number \<open>000000010190001\<close> with the declared birth date
  \<open>01-01-1990\<close> and the declared sex female: the list holds the shape defect and a defect
  of the cross-validation, read from characters 7 to 12 of the malformed number. As
  stated, claim C5 fails.
\<close>

theorem malformed_nik_cross_counterexample:
  "nik short_nik_dated \<noteq> [] \<and> length (nik short_nik_dated) \<noteq> 16 \<and>
   validate_ktp_data example_now short_nik_dated =
     Inr (False, [''NIK harus 16 digit angka'', ''Jenis kelamin tidak sesuai dengan NIK''])"
proof -
  have "validate_ktp_data example_now short_nik_dated =
     Inr (False, [''NIK harus 16 digit angka'', ''Jenis kelamin tidak sesuai dengan NIK''])"
    by code_simp
  then show ?thesis
    by (simp add: short_nik_dated_def example_record_def)
qed

text \<open>
  Claim C7. For every sixteen-digit identity number and every clock, the check of the
  embedded birth date and the cross-check against the declared birth date both expand the
  two-digit year with the pivot rule \<^const>\<open>expand_year\<close>: the first accepts exactly when
  day (after the offset of 40) and month are in range, the day exists in that month of
  the expanded year, and that date is not after the clock; the second reports a mismatch
  exactly when day, month or expanded year differ from the declared ones.
\<close>

theorem pivot_year_both_places:
  assumes "length n = 16" and "list_all is_digit n"
  shows "validate_birth_date_in_nik now (py_slice n 6 12) =
           Inr (let dd = two_digits n 6; mm = two_digits n 8; yy = two_digits n 10;
                    day = (if 40 < dd then dd - 40 else dd);
                    full_year = expand_year (dt_year now) yy
                in 1 \<le> day \<and> day \<le> 31 \<and> 1 \<le> mm \<and> mm \<le> 12 \<and>
                   day \<le> days_in_month full_year mm \<and>
                   \<not> datetime_gt \<lparr>dt_year = full_year, dt_month = mm, dt_day = day,
                                   dt_hour = 0, dt_minute = 0, dt_second = 0,
                                   dt_microsecond = 0\<rparr> now) \<and>
         (\<forall>k d m y. nik k = n \<and> truthy (tanggal_lahir k) \<and>
              parse_dmy (the (tanggal_lahir k)) = Some (d, m, y) \<longrightarrow>
            (''Tanggal lahir tidak sesuai dengan NIK'' \<in> set (cross_validate_nik_data now k)) =
            ((if 40 < two_digits n 6 then two_digits n 6 - 40 else two_digits n 6) \<noteq> d \<or>
             two_digits n 8 \<noteq> m \<or> expand_year (dt_year now) (two_digits n 10) \<noteq> y))"
proof -
  have mn: "match_nik n" using assms by (rule sixteen_digits_match)
  note pe = parse_embedded [OF mn]
  have dg: "is_digit (n ! 10)" "is_digit (n ! (10 + 1))"
    using assms by (simp_all add: list_all_length)
  have yy: "0 \<le> two_digits n 10 \<and> two_digits n 10 \<le> 99"
    using two_digits_range [OF dg] .
  let ?Y = "expand_year (dt_year now) (two_digits n 10)"
  have Y: "1900 \<le> ?Y \<and> ?Y \<le> 2099"
    using yy by (simp add: expand_year_def)
  let ?day = "if 40 < two_digits n 6 then two_digits n 6 - 40 else two_digits n 6"
  let ?mm = "two_digits n 8"
  have fy: "(if two_digits n 10 \<le> (dt_year now - 1900) mod 100 then 2000 + two_digits n 10
             else 1900 + two_digits n 10) = ?Y"
    by (simp add: expand_year_def)
  have a: "validate_birth_date_in_nik now (py_slice n 6 12) =
           Inr (1 \<le> ?day \<and> ?day \<le> 31 \<and> 1 \<le> ?mm \<and> ?mm \<le> 12 \<and>
                ?day \<le> days_in_month ?Y ?mm \<and>
                \<not> datetime_gt \<lparr>dt_year = ?Y, dt_month = ?mm, dt_day = ?day,
                                dt_hour = 0, dt_minute = 0, dt_second = 0,
                                dt_microsecond = 0\<rparr> now)"
  proof (cases "1 \<le> ?day \<and> ?day \<le> 31 \<and> 1 \<le> ?mm \<and> ?mm \<le> 12")
    case False
    then show ?thesis
      unfolding validate_birth_date_in_nik_def pe by (auto simp: Let_def)
  next
    case True
    then have ok: "c_int_ok ?Y \<and> c_int_ok ?mm \<and> c_int_ok ?day"
      using Y by (simp add: c_int_ok_def)
    show ?thesis
    proof (cases "?day \<le> days_in_month ?Y ?mm")
      case le: True
      have "datetime_new ?Y ?mm ?day =
              Inr \<lparr>dt_year = ?Y, dt_month = ?mm, dt_day = ?day, dt_hour = 0, dt_minute = 0,
                   dt_second = 0, dt_microsecond = 0\<rparr>"
        using True ok le Y unfolding datetime_new_def by simp
      then show ?thesis
        using True le unfolding validate_birth_date_in_nik_def pe
        by (simp add: Let_def fy)
    next
      case gt: False
      have "datetime_new ?Y ?mm ?day = Inl ValueError"
        using True ok gt Y unfolding datetime_new_def by simp
      then show ?thesis
        using True gt unfolding validate_birth_date_in_nik_def pe
        by (simp add: Let_def fy)
    qed
  qed
  have b: "(''Tanggal lahir tidak sesuai dengan NIK'' \<in> set (cross_validate_nik_data now k)) =
            (?day \<noteq> d \<or> ?mm \<noteq> m \<or> ?Y \<noteq> y)"
    if kn: "nik k = n" and tr: "truthy (tanggal_lahir k)"
      and pd: "parse_dmy (the (tanggal_lahir k)) = Some (d, m, y)" for k d m y
    using cross_date_iff [of k "two_digits n 6" "two_digits n 8" "two_digits n 10" d m y now]
      pe kn tr pd by simp
  show ?thesis
    using a b by (simp add: Let_def)
qed

theorem pivot_year_both_places_witness:
  "length (nik declared_female_dated) = 16 \<and> list_all is_digit (nik declared_female_dated) \<and>
   validate_birth_date_in_nik example_now (py_slice (nik declared_female_dated) 6 12) = Inr True \<and>
   expand_year (dt_year example_now) (two_digits (nik declared_female_dated) 10) = 1990 \<and>
   ''Tanggal lahir tidak sesuai dengan NIK''
     \<notin> set (cross_validate_nik_data example_now declared_female_dated)"
proof -
  have h1: "length (nik declared_female_dated) = 16"
    and h2: "list_all is_digit (nik declared_female_dated)"
    by (simp_all add: declared_female_dated_def example_record_def is_digit_def)
  have e: "validate_birth_date_in_nik example_now (py_slice (nik declared_female_dated) 6 12)
             = Inr True"
    "expand_year (dt_year example_now) (two_digits (nik declared_female_dated) 10) = 1990"
    "''Tanggal lahir tidak sesuai dengan NIK''
       \<notin> set (cross_validate_nik_data example_now declared_female_dated)"
    by code_simp+
  show ?thesis
    using h1 h2 e pivot_year_both_places [OF h1 h2, of example_now] by simp
qed

section \<open>The province check\<close>

text \<open>
  Claim C6, amended. The list of province names has 38 entries. For every ASCII string,
  the province check puts the string in upper case, strips it, and returns no defect
  exactly when the result is equal to an entry, is a substring of an entry or contains
  an entry; otherwise it returns exactly one province defect. (\<^term>\<open>sublist a b\<close> says
  that \<open>a\<close> occurs in \<open>b\<close> as a contiguous part.)
\<close>

theorem validate_province_accepts:
  assumes "is_ascii province"
  shows "length valid_provinces = 38 \<and>
   validate_province province =
     (if \<exists>m\<in>set valid_provinces.
           py_strip (py_upper province) = m \<or> sublist (py_strip (py_upper province)) m \<or>
           sublist m (py_strip (py_upper province))
      then [] else [''Provinsi tidak dikenali: '' @ province])"
proof -
  have l: "length valid_provinces = 38"
    by (simp add: valid_provinces_def)
  have v: "validate_province province =
     (if \<exists>m\<in>set valid_provinces.
           py_strip (py_upper province) = m \<or> sublist (py_strip (py_upper province)) m \<or>
           sublist m (py_strip (py_upper province))
      then [] else [''Provinsi tidak dikenali: '' @ province])"
    unfolding validate_province_def Let_def filter_empty_conv by auto
  from l v show ?thesis by blast
qed

theorem validate_province_accepts_witness:
  "is_ascii '' bali'' \<and>
   (\<exists>m\<in>set valid_provinces.
      py_strip (py_upper '' bali'') = m \<or> sublist (py_strip (py_upper '' bali'')) m \<or>
      sublist m (py_strip (py_upper '' bali''))) \<and> validate_province '' bali'' = []"
proof -
  have a: "is_ascii '' bali''" by (simp add: is_ascii_def)
  have e: "\<exists>m\<in>set valid_provinces.
      py_strip (py_upper '' bali'') = m \<or> sublist (py_strip (py_upper '' bali'')) m \<or>
      sublist m (py_strip (py_upper '' bali''))"
    by code_simp
  show ?thesis
    using a e validate_province_accepts [OF a] by simp
qed

text \<open>The list does not have the 37 entries that claim C6 states.\<close>

theorem province_count_counterexample: "length valid_provinces \<noteq> 37"
  by (simp add: valid_provinces_def)

section \<open>Exceptions and the validity flag\<close>

subsection \<open>What \<open>int()\<close> returns, and when the validator returns\<close>









lemma upper_strip_examples:
  "py_strip (py_upper [CHR 0xA0]) = []"
  "py_upper [CHR 0xDF, CHR ''u''] = ''SSU''"
  "py_upper [CHR 0xE0] = [CHR 0xC0]"
  "validate_province [CHR 0xA0] = []"
  by code_simp+




text \<open>
  Claim C1. In the scoring step of \<open>verify_ktp\<close>, for every outcome of \<open>validate_ktp_data\<close>:
  with more than three defects the validity flag of the result is false, whatever the
  score and the flag of the extractor were; with at most three defects it is the flag of
  the extractor, unchanged. The step never turns a false flag into a true one. This holds
  for the lines that write the outcome into the result, and for the whole step on a
  result that carries the record.
\<close>

theorem validity_override:
  assumes "validate_ktp_data now d = Inr (data_valid, errs)"
  shows "is_valid_ktp (apply_validation ar (data_valid, errs) q) =
           (if 3 < length errs then False else is_valid_ktp ar) \<and>
         (extracted_data ar = Some d \<longrightarrow>
            (\<exists>ar'. verify_ktp_validation now q ar = Inr ar' \<and>
                   is_valid_ktp ar' = (if 3 < length errs then False else is_valid_ktp ar)))"
proof -
  have dv: "data_valid = (errs = [])"
    using validate_ktp_data_parts [OF assms] by blast
  have a: "is_valid_ktp (apply_validation ar (data_valid, errs) q) =
           (if 3 < length errs then False else is_valid_ktp ar)"
    unfolding dv by (auto simp: apply_validation_def Let_def)
  have b: "\<exists>ar'. verify_ktp_validation now q ar = Inr ar' \<and>
                 is_valid_ktp ar' = (if 3 < length errs then False else is_valid_ktp ar)"
    if "extracted_data ar = Some d"
    using that assms a by (simp add: verify_ktp_validation_def)
  from a b show ?thesis by blast
qed

theorem validity_override_witness:
  "validate_ktp_data example_now four_defects_record =
     Inr (False, [''Kode wilayah NIK tidak valid: 000000'',
                  ''Tanggal lahir dalam NIK tidak valid: 000000'',
                  ''Nomor urut NIK tidak boleh 0000'',
                  ''Nama tidak valid atau terlalu pendek'']) \<and>
   \<not> is_valid_ktp (apply_validation example_result
        (False, [''Kode wilayah NIK tidak valid: 000000'',
                 ''Tanggal lahir dalam NIK tidak valid: 000000'',
                 ''Nomor urut NIK tidak boleh 0000'',
                 ''Nama tidak valid atau terlalu pendek'']) 1)"
proof -
  have h: "validate_ktp_data example_now four_defects_record =
     Inr (False, [''Kode wilayah NIK tidak valid: 000000'',
                  ''Tanggal lahir dalam NIK tidak valid: 000000'',
                  ''Nomor urut NIK tidak boleh 0000'',
                  ''Nama tidak valid atau terlalu pendek''])"
    by code_simp
  show ?thesis
    using h validity_override [OF h, of example_result 1] by simp
qed

end
